theory Spec2Isabelle
  imports Main "HOL-Library.Word"
begin

unbundle bit_operations_syntax

section \<open>The citrus platform driver: shared lines, one bus mutex, two bit-banged engines\<close>

text \<open>
  The driver multiplexes an I2C adapter and an SPI master over the GPIO lines owned by
  \<^verbatim>\<open>struct citrus_core\<close> (\<^verbatim>\<open>citrus-core.c\<close>); \<^verbatim>\<open>citrus-i2c.c\<close> holds the I2C adapter
  with its fault injector, followed by the SPI master.  A definition that bears the name of
  a source function is that function.  A function that touches a line, a lock or an
  interrupt returns the sequence of those operations in program order (its trace);
  what the kernel answers to a call (a return code, the end of a wait) is an argument.
\<close>

subsection \<open>C arithmetic\<close>

text \<open>C's \<^verbatim>\<open>/\<close> on \<^verbatim>\<open>int\<close> truncates towards zero.\<close>

definition c_div :: "int \<Rightarrow> int \<Rightarrow> int" where
  "c_div a b = sgn a * sgn b * (\<bar>a\<bar> div \<bar>b\<bar>)"

type_synonym u8 = "8 word"
type_synonym u32 = "32 word"
type_synonym u64 = "64 word"

subsection \<open>Constants of kernel headers\<close>

text \<open>
  The errno values, \<^verbatim>\<open>HZ\<close>, the \<^verbatim>\<open>SPI_*\<close> mode bits and \<^verbatim>\<open>msecs_to_jiffies\<close> (its result
  as the \<^verbatim>\<open>int\<close> it is stored into) come from kernel headers and the kernel configuration.
  They are parameters: no result below depends on their values.
\<close>

record kernel_consts =
  EINVAL :: int
  ENODEV :: int
  ENOMEM :: int
  HZ :: int
  SPI_CPOL :: u32
  SPI_3WIRE :: u32
  SPI_3WIRE_HIZ :: u32
  CONFIG_I2C_GPIO_FAULT_INJECTOR :: bool
  msecs_to_jiffies :: "u32 \<Rightarrow> int"

subsection \<open>Lines, locks and traces\<close>

text \<open>
  \<^verbatim>\<open>citrus->sck\<close> and \<^verbatim>\<open>citrus->mosi\<close> are the descriptors of \<^verbatim>\<open>struct citrus_core\<close>.
  The fault injector's interrupt action names its clock line \<^verbatim>\<open>priv->scl\<close>; that name
  is kept apart as \<open>Priv_scl\<close>.
\<close>

datatype gpio = Sck | Mosi | Priv_scl

text \<open>
  \<open>Bus_mutex\<close> is \<^verbatim>\<open>citrus->bus_mutex\<close>, \<open>Bb_lock\<close> is \<^verbatim>\<open>bitbang.lock\<close> of the SPI master,
  \<open>Adap_bus_lock\<close> is the lock that \<^verbatim>\<open>i2c_lock_bus(&priv->adap, I2C_LOCK_ROOT_ADAPTER)\<close>
  takes on the I2C adapter.
\<close>

datatype lock = Bus_mutex | Bb_lock | Adap_bus_lock

datatype irq_handler = Lose_arbitration_irq | Inject_panic_irq

datatype wait_result = Completed | Interrupted

datatype event =
    Lock lock
  | Unlock lock
  | Set_value gpio int              \<comment> \<open>\<^verbatim>\<open>gpiod_set_value_cansleep(desc, value)\<close>\<close>
  | Get_value gpio                  \<comment> \<open>\<^verbatim>\<open>gpiod_get_value_cansleep(desc)\<close>\<close>
  | Direction_input gpio int        \<comment> \<open>\<^verbatim>\<open>gpiod_direction_input(desc)\<close> and its return code\<close>
  | Direction_output gpio int int   \<comment> \<open>\<^verbatim>\<open>gpiod_direction_output(desc, value)\<close> and its return code\<close>
  | Udelay int
  | Reinit_completion
  | Request_irq int irq_handler int \<comment> \<open>irq number, handler, return code\<close>
  | Wait_for_completion wait_result
  | Complete
  | Free_irq int
  | Panic
  | Bb_busy int

type_synonym trace = "event list"

fun is_line_op :: "event \<Rightarrow> bool" where
  "is_line_op (Set_value g v) = True"
| "is_line_op (Get_value g) = True"
| "is_line_op (Direction_input g r) = True"
| "is_line_op (Direction_output g v r) = True"
| "is_line_op e = False"

text \<open>
  A trace respects lock \<open>l\<close> when \<open>l\<close> is taken only while free, released only while
  held, every line operation happens while it is held, and it is free at the end.
\<close>

fun disciplined :: "lock \<Rightarrow> bool \<Rightarrow> trace \<Rightarrow> bool" where
  "disciplined l held [] = (\<not> held)"
| "disciplined l held (e # es) =
     (if e = Lock l then \<not> held \<and> disciplined l True es
      else if e = Unlock l then held \<and> disciplined l False es
      else (is_line_op e \<longrightarrow> held) \<and> disciplined l held es)"

subsection \<open>Line state\<close>

datatype direction = Dir_in | Dir_out

record gpio_state =
  dir :: "gpio \<Rightarrow> direction"
  level :: "gpio \<Rightarrow> bool"

text \<open>
  A nonzero value drives the line high.  A direction call that fails (nonzero return code)
  leaves the line as it was.
\<close>

fun apply_event :: "gpio_state \<Rightarrow> event \<Rightarrow> gpio_state" where
  "apply_event s (Set_value g v) = s\<lparr>level := (level s)(g := (v \<noteq> 0))\<rparr>"
| "apply_event s (Direction_input g r) =
     (if r = 0 then s\<lparr>dir := (dir s)(g := Dir_in)\<rparr> else s)"
| "apply_event s (Direction_output g v r) =
     (if r = 0 then s\<lparr>dir := (dir s)(g := Dir_out), level := (level s)(g := (v \<noteq> 0))\<rparr> else s)"
| "apply_event s e = s"

definition run :: "gpio_state \<Rightarrow> trace \<Rightarrow> gpio_state" where
  "run s t = foldl apply_event s t"

subsection \<open>Two-wire bus conditions seen on a trace\<close>

text \<open>
  START is the data line falling while the clock is high, STOP the data line rising while
  the clock is high, and a bit is clocked out at each rising clock edge: the level the
  data line has then.  \<open>bus_conds scl sda t\<close> lists them in order for the levels
  \<open>scl\<close>, \<open>sda\<close> the lines have before \<open>t\<close>.
\<close>

datatype bus_cond = Start | Stop | Bit bool

fun bus_conds :: "bool \<Rightarrow> bool \<Rightarrow> trace \<Rightarrow> bus_cond list" where
  "bus_conds scl sda [] = []"
| "bus_conds scl sda (Set_value Sck v # es) =
     (if \<not> scl \<and> v \<noteq> 0 then Bit sda # bus_conds True sda es
      else bus_conds (v \<noteq> 0) sda es)"
| "bus_conds scl sda (Set_value Mosi v # es) =
     (if scl \<and> sda \<and> v = 0 then Start # bus_conds scl False es
      else if scl \<and> \<not> sda \<and> v \<noteq> 0 then Stop # bus_conds scl True es
      else bus_conds scl (v \<noteq> 0) es)"
| "bus_conds scl sda (e # es) = bus_conds scl sda es"

subsection \<open>\<^verbatim>\<open>citrus-core.c\<close>: the lock and the line accessors\<close>

definition citrus_core_lock_spi :: trace where
  "citrus_core_lock_spi = [Lock Bus_mutex]"

definition citrus_core_unlock_spi :: trace where
  "citrus_core_unlock_spi = [Unlock Bus_mutex]"

definition citrus_core_set_spi_sck :: "int \<Rightarrow> trace" where
  "citrus_core_set_spi_sck v = [Set_value Sck v]"

definition citrus_core_set_spi_mosi :: "int \<Rightarrow> trace" where
  "citrus_core_set_spi_mosi v = [Set_value Mosi v]"

text \<open>The direction calls return what \<^verbatim>\<open>gpiod_direction_*\<close> returns, here \<open>r\<close>.\<close>

definition citrus_core_set_spi_mosi_direction_input :: "int \<Rightarrow> int \<times> trace" where
  "citrus_core_set_spi_mosi_direction_input r = (r, [Direction_input Mosi r])"

definition citrus_core_set_spi_mosi_direction_output :: "int \<Rightarrow> int \<Rightarrow> int \<times> trace" where
  "citrus_core_set_spi_mosi_direction_output r v = (r, [Direction_output Mosi v r])"

definition citrus_core_lock_i2c :: trace where
  "citrus_core_lock_i2c = [Lock Bus_mutex]"

definition citrus_core_unlock_i2c :: trace where
  "citrus_core_unlock_i2c = [Unlock Bus_mutex]"

definition citrus_core_set_i2c_sda :: "int \<Rightarrow> trace" where
  "citrus_core_set_i2c_sda v = [Set_value Mosi v]"

definition citrus_core_set_i2c_scl :: "int \<Rightarrow> trace" where
  "citrus_core_set_i2c_scl v = [Set_value Sck v]"

definition citrus_core_get_i2c_sda :: trace where
  "citrus_core_get_i2c_sda = [Get_value Mosi]"

definition citrus_core_get_i2c_scl :: trace where
  "citrus_core_get_i2c_scl = [Get_value Sck]"

subsection \<open>\<^verbatim>\<open>citrus-i2c.c\<close>: the I2C adapter\<close>

datatype callback =
    I2c_gpio_setsda_val | I2c_gpio_setscl_val | I2c_gpio_getsda | I2c_gpio_getscl
  | I2c_gpio_pre_xfer | I2c_gpio_post_xfer
  | I2c_gpio_setscl2_val | I2c_gpio_getscl2

text \<open>A callback pointer is \<open>None\<close> while it is \<^verbatim>\<open>NULL\<close>.\<close>

record i2c_algo_bit_data =
  setsda :: "callback option"
  setscl :: "callback option"
  getsda :: "callback option"
  getscl :: "callback option"
  pre_xfer :: "callback option"
  post_xfer :: "callback option"
  udelay :: int
  timeout :: int
  can_do_atomic :: bool

record i2c_gpio_platform_data =
  pdata_udelay :: int
  pdata_timeout :: int
  sda_is_open_drain :: bool
  scl_is_open_drain :: bool
  scl_is_output_only :: bool

record i2c_gpio_private_data =
  bit_data :: i2c_algo_bit_data
  pdata :: i2c_gpio_platform_data
  scl_irq_data :: u64

definition i2c_gpio_setsda_val :: "int \<Rightarrow> trace" where
  "i2c_gpio_setsda_val state = citrus_core_set_i2c_sda state"

definition i2c_gpio_setscl_val :: "int \<Rightarrow> trace" where
  "i2c_gpio_setscl_val state = citrus_core_set_i2c_scl state"

definition i2c_gpio_getsda :: trace where
  "i2c_gpio_getsda = citrus_core_get_i2c_sda"

definition i2c_gpio_getscl :: trace where
  "i2c_gpio_getscl = citrus_core_get_i2c_scl"

definition i2c_gpio_pre_xfer :: "int \<times> trace" where
  "i2c_gpio_pre_xfer = (0, citrus_core_lock_i2c)"

definition i2c_gpio_post_xfer :: trace where
  "i2c_gpio_post_xfer = citrus_core_unlock_i2c"

subsection \<open>The fault injector\<close>

text \<open>
  The macros \<^verbatim>\<open>setsda(bd, val)\<close>, \<^verbatim>\<open>setscl(bd, val)\<close> and \<^verbatim>\<open>getsda(bd)\<close> call through the
  pointers of \<^verbatim>\<open>bit_data\<close>, which the probe sets to \<^verbatim>\<open>i2c_gpio_setsda_val\<close>,
  \<^verbatim>\<open>i2c_gpio_setscl_val\<close> and \<^verbatim>\<open>i2c_gpio_getsda\<close> on every path; the calls are written
  out as calls of these.  \<^verbatim>\<open>getscl\<close> is installed conditionally, so \<open>fops_scl_get\<close>
  looks the pointer up: calling \<^verbatim>\<open>NULL\<close> does not return, the result is \<open>None\<close>.

  A \<^verbatim>\<open>u64\<close> passed as the \<^verbatim>\<open>int\<close> line state keeps its low 32 bits; the \<^verbatim>\<open>int\<close> a getter
  returns (\<open>v\<close> below, what the line reads) is stored into the \<^verbatim>\<open>u64\<close> result.
\<close>

definition fops_scl_get :: "i2c_gpio_private_data \<Rightarrow> int \<Rightarrow> (int \<times> u64 \<times> trace) option" where
  "fops_scl_get priv v =
     (case getscl (bit_data priv) of
        None \<Rightarrow> None
      | Some cb \<Rightarrow>
          Some (0, word_of_int v, [Lock Adap_bus_lock] @ i2c_gpio_getscl @ [Unlock Adap_bus_lock]))"

definition fops_scl_set :: "i2c_gpio_private_data \<Rightarrow> u64 \<Rightarrow> int \<times> trace" where
  "fops_scl_set priv val =
     (0, [Lock Adap_bus_lock] @ i2c_gpio_setscl_val (sint (ucast val :: u32))
           @ [Unlock Adap_bus_lock])"

definition fops_sda_get :: "i2c_gpio_private_data \<Rightarrow> int \<Rightarrow> int \<times> u64 \<times> trace" where
  "fops_sda_get priv v =
     (0, word_of_int v, [Lock Adap_bus_lock] @ i2c_gpio_getsda @ [Unlock Adap_bus_lock])"

definition fops_sda_set :: "i2c_gpio_private_data \<Rightarrow> u64 \<Rightarrow> int \<times> trace" where
  "fops_sda_set priv val =
     (0, [Lock Adap_bus_lock] @ i2c_gpio_setsda_val (sint (ucast val :: u32))
           @ [Unlock Adap_bus_lock])"

text \<open>
  The loop \<^verbatim>\<open>for (i = pattern_size - 1; i >= 0; i--)\<close> of
  \<^verbatim>\<open>i2c_gpio_incomplete_transfer\<close>: the argument is \<open>i + 1\<close>, the number of bits still
  to send.  \<open>u\<close> is \<^verbatim>\<open>bit_data->udelay\<close>.  Both callers pass fewer than 32 bits, so the
  shift \<^verbatim>\<open>pattern >> i\<close> stays within the width of \<^verbatim>\<open>u32\<close>.
\<close>

fun incomplete_transfer_loop :: "int \<Rightarrow> u32 \<Rightarrow> nat \<Rightarrow> trace" where
  "incomplete_transfer_loop u pattern 0 = []"
| "incomplete_transfer_loop u pattern (Suc i) =
     i2c_gpio_setscl_val 0 @ [Udelay (c_div u 2)]
     @ i2c_gpio_setsda_val (uint (drop_bit i pattern AND 1)) @ [Udelay (c_div (u + 1) 2)]
     @ i2c_gpio_setscl_val 1 @ [Udelay u]
     @ incomplete_transfer_loop u pattern i"

definition i2c_gpio_incomplete_transfer :: "i2c_gpio_private_data \<Rightarrow> u32 \<Rightarrow> u8 \<Rightarrow> trace" where
  "i2c_gpio_incomplete_transfer priv pattern pattern_size =
     [Lock Adap_bus_lock]
     @ i2c_gpio_setsda_val 0 @ [Udelay (udelay (bit_data priv))]
     @ incomplete_transfer_loop (udelay (bit_data priv)) pattern (unat pattern_size)
     @ [Unlock Adap_bus_lock]"

definition fops_incomplete_addr_phase_set ::
  "kernel_consts \<Rightarrow> i2c_gpio_private_data \<Rightarrow> u64 \<Rightarrow> int \<times> trace" where
  "fops_incomplete_addr_phase_set k priv addr =
     (if 0x7f < addr then (- EINVAL k, [])
      else let pattern = (ucast (push_bit 2 addr OR 3) :: u32)
           in (0, i2c_gpio_incomplete_transfer priv pattern 9))"

definition fops_incomplete_write_byte_set ::
  "kernel_consts \<Rightarrow> i2c_gpio_private_data \<Rightarrow> u64 \<Rightarrow> int \<times> trace" where
  "fops_incomplete_write_byte_set k priv addr =
     (if 0x7f < addr then (- EINVAL k, [])
      else let pattern = (ucast (push_bit 2 addr OR 1) :: u32);
               pattern = push_bit 9 pattern OR 1
           in (0, i2c_gpio_incomplete_transfer priv pattern 18))"

text \<open>
  What the kernel answers during \<^verbatim>\<open>i2c_gpio_fi_act_on_scl_irq\<close>: the results of
  \<^verbatim>\<open>gpiod_to_irq\<close>, \<^verbatim>\<open>gpiod_direction_input\<close>, \<^verbatim>\<open>request_irq\<close> and
  \<^verbatim>\<open>gpiod_direction_output\<close>, and how \<^verbatim>\<open>wait_for_completion_interruptible\<close> ends:
  \<open>Completed\<close> after the handler ran on a falling clock edge, \<open>Interrupted\<close> by a signal
  before any edge.
\<close>

record irq_env =
  to_irq :: int
  dir_in_ret :: int
  req_irq_ret :: int
  wait_ret :: wait_result
  dir_out_ret :: int

definition lose_arbitration_irq :: "i2c_gpio_private_data \<Rightarrow> trace" where
  "lose_arbitration_irq priv =
     i2c_gpio_setsda_val 0 @ [Udelay (uint (scl_irq_data priv))] @ i2c_gpio_setsda_val 1
     @ [Complete]"

text \<open>\<^verbatim>\<open>panic\<close> does not return: the trace of \<open>inject_panic_irq\<close> ends there.\<close>

definition inject_panic_irq :: "i2c_gpio_private_data \<Rightarrow> trace" where
  "inject_panic_irq priv = [Udelay (uint (scl_irq_data priv)), Panic]"

text \<open>
  The result is \<open>Some ret\<close> when the function returns \<open>ret\<close>, and \<open>None\<close> when the
  handler panics.  The two labels of the source are the two helper definitions.
\<close>

definition fi_unlock :: "int \<Rightarrow> int option \<times> trace" where
  "fi_unlock ret = (Some ret, [Unlock Adap_bus_lock])"

definition fi_output :: "irq_env \<Rightarrow> int \<Rightarrow> int option \<times> trace" where
  "fi_output env ret =
     (let ret = (if dir_out_ret env \<noteq> 0 then dir_out_ret env else ret);
          (r, t) = fi_unlock ret
      in (r, Direction_output Priv_scl 1 (dir_out_ret env) # t))"

definition i2c_gpio_fi_act_on_scl_irq ::
  "irq_env \<Rightarrow> i2c_gpio_private_data \<Rightarrow> irq_handler \<Rightarrow> int option \<times> trace" where
  "i2c_gpio_fi_act_on_scl_irq env priv handler =
     (let irq = to_irq env in
      if irq < 0 then (Some irq, [])
      else
        let t1 = [Lock Adap_bus_lock, Direction_input Priv_scl (dir_in_ret env)];
            ret = dir_in_ret env
        in if ret \<noteq> 0 then (let (r, t) = fi_unlock ret in (r, t1 @ t))
        else
          let t2 = t1 @ [Reinit_completion, Request_irq irq handler (req_irq_ret env)];
              ret = req_irq_ret env
          in if ret \<noteq> 0 then (let (r, t) = fi_output env ret in (r, t2 @ t))
          else
            (case wait_ret env of
               Interrupted \<Rightarrow>
                 (let (r, t) = fi_output env ret
                  in (r, t2 @ [Wait_for_completion Interrupted, Free_irq irq] @ t))
             | Completed \<Rightarrow>
                 (case handler of
                    Inject_panic_irq \<Rightarrow> (None, t2 @ inject_panic_irq priv)
                  | Lose_arbitration_irq \<Rightarrow>
                      (let (r, t) = fi_output env ret
                       in (r, t2 @ lose_arbitration_irq priv
                               @ [Wait_for_completion Completed, Free_irq irq] @ t)))))"

definition fops_lose_arbitration_set ::
  "kernel_consts \<Rightarrow> irq_env \<Rightarrow> i2c_gpio_private_data \<Rightarrow> u64
     \<Rightarrow> int option \<times> trace \<times> i2c_gpio_private_data" where
  "fops_lose_arbitration_set k env priv duration =
     (if 100 * 1000 < duration then (Some (- EINVAL k), [], priv)
      else let priv = priv\<lparr>scl_irq_data := duration\<rparr>;
               (r, t) = i2c_gpio_fi_act_on_scl_irq env priv Lose_arbitration_irq
           in (r, t, priv))"

definition fops_inject_panic_set ::
  "kernel_consts \<Rightarrow> irq_env \<Rightarrow> i2c_gpio_private_data \<Rightarrow> u64
     \<Rightarrow> int option \<times> trace \<times> i2c_gpio_private_data" where
  "fops_inject_panic_set k env priv duration =
     (if 100 * 1000 < duration then (Some (- EINVAL k), [], priv)
      else let priv = priv\<lparr>scl_irq_data := duration\<rparr>;
               (r, t) = i2c_gpio_fi_act_on_scl_irq env priv Inject_panic_irq
           in (r, t, priv))"

subsection \<open>The debugfs controls of the fault injector\<close>

datatype fops =
    Fops_incomplete_addr_phase | Fops_incomplete_write_byte | Fops_inject_panic
  | Fops_lose_arbitration | Fops_scl | Fops_sda

text \<open>
  A created file: name, mode, file operations.  The modes \<^verbatim>\<open>0200\<close> and \<^verbatim>\<open>0600\<close> are
  octal: 128 and 384.
\<close>

type_synonym debugfs_file = "string \<times> nat \<times> fops"

text \<open>
  What the probe finds: the device-tree node (\<open>None\<close> when no matching node is found or
  it is not available), whether the allocation of the private data succeeds, the result of
  \<^verbatim>\<open>i2c_bit_add_numbered_bus\<close>, the result of \<^verbatim>\<open>devm_add_action_or_reset\<close> (called by the
  later revision only), whether the static \<^verbatim>\<open>i2c_gpio_debug_dir\<close> is already set, and whether
  each \<^verbatim>\<open>debugfs_create_dir\<close> returns a directory.
\<close>

record dt_node =
  delay_us :: "u32 option"          \<comment> \<open>\<^verbatim>\<open>i2c-gpio,delay-us\<close>\<close>
  timeout_ms :: "u32 option"        \<comment> \<open>\<^verbatim>\<open>i2c-gpio,timeout-ms\<close>\<close>
  sda_open_drain :: bool            \<comment> \<open>\<^verbatim>\<open>i2c-gpio,sda-open-drain\<close>\<close>
  scl_open_drain :: bool            \<comment> \<open>\<^verbatim>\<open>i2c-gpio,scl-open-drain\<close>\<close>
  scl_output_only :: bool           \<comment> \<open>\<^verbatim>\<open>i2c-gpio,scl-output-only\<close>\<close>

record probe_env =
  i2c_node :: "dt_node option"
  kzalloc_ok :: bool
  add_bus_ret :: int
  add_action_ret :: int
  i2c_gpio_debug_dir :: bool
  create_root_ok :: bool
  create_dir_ok :: bool

definition i2c_gpio_fault_injector_init ::
  "probe_env \<Rightarrow> i2c_gpio_private_data \<Rightarrow> debugfs_file list" where
  "i2c_gpio_fault_injector_init env priv =
     (if \<not> i2c_gpio_debug_dir env \<and> \<not> create_root_ok env then []
      else if \<not> create_dir_ok env then []
      else
        [(''incomplete_address_phase'', 128, Fops_incomplete_addr_phase),
         (''incomplete_write_byte'', 128, Fops_incomplete_write_byte)]
        @ (if getscl (bit_data priv) \<noteq> None
           then [(''inject_panic'', 128, Fops_inject_panic),
                 (''lose_arbitration'', 128, Fops_lose_arbitration)]
           else [])
        @ [(''scl'', 384, Fops_scl), (''sda'', 384, Fops_sda)])"

subsection \<open>The I2C probe\<close>

text \<open>\<^verbatim>\<open>of_property_read_u32\<close> leaves its target alone when the property is missing.\<close>

definition of_i2c_gpio_get_props ::
  "kernel_consts \<Rightarrow> dt_node \<Rightarrow> i2c_gpio_platform_data \<Rightarrow> i2c_gpio_platform_data" where
  "of_i2c_gpio_get_props k np pd =
     pd\<lparr>pdata_udelay := (case delay_us np of Some v \<Rightarrow> sint v | None \<Rightarrow> pdata_udelay pd),
        pdata_timeout :=
          (case timeout_ms np of Some reg \<Rightarrow> msecs_to_jiffies k reg | None \<Rightarrow> pdata_timeout pd),
        sda_is_open_drain := sda_open_drain np,
        scl_is_open_drain := scl_open_drain np,
        scl_is_output_only := scl_output_only np\<rparr>"

text \<open>The private data as \<^verbatim>\<open>devm_kzalloc\<close> returns it: all zero.\<close>

definition kzalloc_priv :: i2c_gpio_private_data where
  "kzalloc_priv =
     \<lparr>bit_data = \<lparr>setsda = None, setscl = None, getsda = None, getscl = None,
                  pre_xfer = None, post_xfer = None, udelay = 0, timeout = 0,
                  can_do_atomic = False\<rparr>,
      pdata = \<lparr>pdata_udelay = 0, pdata_timeout = 0, sda_is_open_drain = False,
               scl_is_open_drain = False, scl_is_output_only = False\<rparr>,
      scl_irq_data = 0\<rparr>"

text \<open>
  The result is the return code and, when the probe returns 0, the private data with the
  debugfs files created for it.
\<close>

definition i2c_citrus_probe ::
  "kernel_consts \<Rightarrow> probe_env \<Rightarrow> int \<times> (i2c_gpio_private_data \<times> debugfs_file list) option" where
  "i2c_citrus_probe k env =
     (case i2c_node env of
        None \<Rightarrow> (- ENODEV k, None)
      | Some np \<Rightarrow>
          if \<not> kzalloc_ok env then (- ENOMEM k, None)
          else
            let priv = kzalloc_priv;
                pd = of_i2c_gpio_get_props k np (pdata priv);
                bd = bit_data priv;
                bd = bd\<lparr>can_do_atomic := True\<rparr>;
                bd = bd\<lparr>setsda := Some I2c_gpio_setsda_val\<rparr>;
                bd = bd\<lparr>setscl := Some I2c_gpio_setscl_val\<rparr>;
                bd = bd\<lparr>pre_xfer := Some I2c_gpio_pre_xfer\<rparr>;
                bd = bd\<lparr>post_xfer := Some I2c_gpio_post_xfer\<rparr>;
                bd = (if \<not> scl_is_output_only pd then bd\<lparr>getscl := Some I2c_gpio_getscl\<rparr>
                      else bd);
                bd = bd\<lparr>getsda := Some I2c_gpio_getsda\<rparr>;
                bd = (if pdata_udelay pd \<noteq> 0 then bd\<lparr>udelay := pdata_udelay pd\<rparr>
                      else if scl_is_output_only pd then bd\<lparr>udelay := 50\<rparr>
                      else bd\<lparr>udelay := 5\<rparr>);
                bd = (if pdata_timeout pd \<noteq> 0 then bd\<lparr>timeout := pdata_timeout pd\<rparr>
                      else bd\<lparr>timeout := c_div (HZ k) 10\<rparr>);
                priv = priv\<lparr>bit_data := bd, pdata := pd\<rparr>;
                ret = add_bus_ret env
            in if ret \<noteq> 0 then (ret, None)
               else (0, Some (priv,
                      if CONFIG_I2C_GPIO_FAULT_INJECTOR k
                      then i2c_gpio_fault_injector_init env priv else [])))"

text \<open>
  The later revision of the probe, for a core with a second clock line: \<open>scl2\<close> selects
  the clock callbacks, there is no fault injector, and the result of the last call is
  returned.  The result is the return code and, when the adapter was added, the private data.
\<close>

definition i2c_citrus_probe_scl2 ::
  "kernel_consts \<Rightarrow> probe_env \<Rightarrow> bool \<Rightarrow> int \<times> i2c_gpio_private_data option" where
  "i2c_citrus_probe_scl2 k env scl2 =
     (case i2c_node env of
        None \<Rightarrow> (- ENODEV k, None)
      | Some np \<Rightarrow>
          if \<not> kzalloc_ok env then (- ENOMEM k, None)
          else
            let priv = kzalloc_priv;
                pd = of_i2c_gpio_get_props k np (pdata priv);
                bd = bit_data priv;
                bd = bd\<lparr>can_do_atomic := True\<rparr>;
                bd = bd\<lparr>setsda := Some I2c_gpio_setsda_val\<rparr>;
                bd = bd\<lparr>setscl := Some (if scl2 then I2c_gpio_setscl2_val
                                         else I2c_gpio_setscl_val)\<rparr>;
                bd = bd\<lparr>pre_xfer := Some I2c_gpio_pre_xfer\<rparr>;
                bd = bd\<lparr>post_xfer := Some I2c_gpio_post_xfer\<rparr>;
                bd = (if \<not> scl_is_output_only pd
                      then bd\<lparr>getscl := Some (if scl2 then I2c_gpio_getscl2
                                                else I2c_gpio_getscl)\<rparr>
                      else bd);
                bd = bd\<lparr>getsda := Some I2c_gpio_getsda\<rparr>;
                bd = (if pdata_udelay pd \<noteq> 0 then bd\<lparr>udelay := pdata_udelay pd\<rparr>
                      else if scl_is_output_only pd then bd\<lparr>udelay := 50\<rparr>
                      else bd\<lparr>udelay := 5\<rparr>);
                bd = (if pdata_timeout pd \<noteq> 0 then bd\<lparr>timeout := pdata_timeout pd\<rparr>
                      else bd\<lparr>timeout := c_div (HZ k) 10\<rparr>);
                priv = priv\<lparr>bit_data := bd, pdata := pd\<rparr>;
                ret = add_bus_ret env
            in if ret \<noteq> 0 then (ret, None)
               else (add_action_ret env, Some priv))"

subsection \<open>\<^verbatim>\<open>citrus-i2c.c\<close>, second part: the SPI master\<close>

record spi_device =
  mode :: u32

definition setsck :: "spi_device \<Rightarrow> int \<Rightarrow> trace" where
  "setsck spi is_on = citrus_core_set_spi_sck is_on"

definition setmosi :: "spi_device \<Rightarrow> int \<Rightarrow> trace" where
  "setmosi spi is_on = citrus_core_set_spi_mosi is_on"

text \<open>\<open>getmiso\<close> returns its value and the line operations it performs: none.\<close>

definition getmiso :: "spi_device \<Rightarrow> int \<times> trace" where
  "getmiso spi = (0, [])"

definition spi_citrus_chipselect :: "kernel_consts \<Rightarrow> spi_device \<Rightarrow> int \<Rightarrow> trace" where
  "spi_citrus_chipselect k spi is_active =
     (if is_active \<noteq> 0 then citrus_core_set_spi_sck (sint (mode spi AND SPI_CPOL k))
      else [])"

text \<open>
  \<open>r\<close> is what the one \<^verbatim>\<open>gpiod_direction_*\<close> call of \<open>spi_citrus_set_direction\<close> returns,
  if it is made.
\<close>

definition spi_citrus_set_direction ::
  "kernel_consts \<Rightarrow> spi_device \<Rightarrow> int \<Rightarrow> bool \<Rightarrow> int \<times> trace" where
  "spi_citrus_set_direction k spi r output =
     (if output then citrus_core_set_spi_mosi_direction_output r 1
      else
        let (ret, t1) = (if mode spi AND SPI_3WIRE k \<noteq> 0
                         then citrus_core_set_spi_mosi_direction_input r else (0, []))
        in if ret \<noteq> 0 then (ret, t1)
           else
             let t2 = (if mode spi AND SPI_3WIRE_HIZ k \<noteq> 0
                       then citrus_core_set_spi_sck (of_bool (mode spi AND SPI_CPOL k = 0))
                            @ citrus_core_set_spi_sck (of_bool (mode spi AND SPI_CPOL k \<noteq> 0))
                       else [])
             in (0, t1 @ t2))"

definition spi_citrus_prepare_hardware :: "int \<times> trace" where
  "spi_citrus_prepare_hardware =
     (0, citrus_core_lock_spi @ [Lock Bb_lock, Bb_busy 1, Unlock Bb_lock])"

definition spi_citrus_unprepare_hardware :: "int \<times> trace" where
  "spi_citrus_unprepare_hardware =
     (0, [Lock Bb_lock, Bb_busy 0, Unlock Bb_lock] @ citrus_core_unlock_spi)"

subsection \<open>Transactions as the callers of the hooks run them\<close>

text \<open>
  Modelled from the spec: the callers of \<open>i2c_gpio_pre_xfer\<close> and \<open>i2c_gpio_post_xfer\<close>
  (the bit-banging I2C algorithm) and of the two hardware hooks of the SPI master (the SPI
  message queue) are not among the source files.  The spec has a transaction acquire the
  lock, drive the lines bit by bit (\<open>body\<close>) and release the lock on completion or error.
\<close>

definition two_wire_transaction :: "trace \<Rightarrow> trace" where
  "two_wire_transaction body = snd i2c_gpio_pre_xfer @ body @ i2c_gpio_post_xfer"

definition four_wire_transaction :: "trace \<Rightarrow> trace" where
  "four_wire_transaction body =
     snd spi_citrus_prepare_hardware @ body @ snd spi_citrus_unprepare_hardware"

text \<open>
  Modelled from the spec: the caller of \<open>spi_citrus_chipselect\<close> (the bit-banging SPI
  framework) is not among the source files.  The spec has chip-select asserted before the
  first word; \<open>words\<close> is what the word transfers do, and chip-select is deasserted
  after them.
\<close>

definition chip_selected_transfer :: "kernel_consts \<Rightarrow> spi_device \<Rightarrow> trace \<Rightarrow> trace" where
  "chip_selected_transfer k spi words =
     spi_citrus_chipselect k spi 1 @ words @ spi_citrus_chipselect k spi 0"

text \<open>
  Modelled from the spec: the word-transfer procedures of \<^verbatim>\<open>spi-bitbang-txrx.h\<close> are not
  among the source files.  The spec has the engine sample the data-in line once for each
  bit of a word; \<open>sample_word spi bits\<close> is the list of the samples of one word, each
  taken by \<open>getmiso\<close>, with the line operations this performs.
\<close>

definition sample_word :: "spi_device \<Rightarrow> nat \<Rightarrow> int list \<times> trace" where
  "sample_word spi bits =
     (replicate bits (fst (getmiso spi)), concat (replicate bits (snd (getmiso spi))))"

subsection \<open>Bit patterns\<close>

text \<open>The \<open>n\<close> low bits of \<open>P\<close>, most significant first, and the number such a list spells.\<close>

definition msb_first :: "nat \<Rightarrow> nat \<Rightarrow> bool list" where
  "msb_first n P = map (bit P) (rev [0..<n])"

definition msb_first_value :: "bool list \<Rightarrow> nat" where
  "msb_first_value bs = foldl (\<lambda>acc b. 2 * acc + of_bool b) 0 bs"

subsection \<open>Concrete inputs\<close>

text \<open>
  The constants as Linux defines them for a kernel with \<^verbatim>\<open>HZ = 250\<close>, a device-tree node
  without optional properties, a probe in which every call succeeds, an interrupt action
  in which every call succeeds and the interrupt fires, an SPI device in 3-wire mode with
  the high-impedance turnaround, and lines that are all driven low.
\<close>

definition example_consts :: kernel_consts where
  "example_consts =
     \<lparr>EINVAL = 22, ENODEV = 19, ENOMEM = 12, HZ = 250, SPI_CPOL = 0x02, SPI_3WIRE = 0x10,
      SPI_3WIRE_HIZ = 0x8000, CONFIG_I2C_GPIO_FAULT_INJECTOR = True,
      msecs_to_jiffies = (\<lambda>m. (uint m * 250 + 999) div 1000)\<rparr>"

definition example_node :: dt_node where
  "example_node = \<lparr>delay_us = None, timeout_ms = None, sda_open_drain = False,
     scl_open_drain = False, scl_output_only = False\<rparr>"

definition example_probe_env :: probe_env where
  "example_probe_env = \<lparr>i2c_node = Some example_node, kzalloc_ok = True, add_bus_ret = 0,
     add_action_ret = 0, i2c_gpio_debug_dir = False, create_root_ok = True,
     create_dir_ok = True\<rparr>"

definition example_irq_env :: irq_env where
  "example_irq_env =
     \<lparr>to_irq = 17, dir_in_ret = 0, req_irq_ret = 0, wait_ret = Completed, dir_out_ret = 0\<rparr>"

definition example_spi :: spi_device where
  "example_spi = \<lparr>mode = 0x8010\<rparr>"

definition lines_low :: gpio_state where
  "lines_low = \<lparr>dir = (\<lambda>g. Dir_out), level = (\<lambda>g. False)\<rparr>"

section \<open>Properties\<close>

subsection \<open>Running traces\<close>

lemma run_append: "run s (t @ t') = run (run s t) t'"
  by (simp add: run_def)

lemma run_Cons: "run s (e # t) = run (apply_event s e) t"
  by (simp add: run_def)

lemma run_Nil: "run s [] = s"
  by (simp add: run_def)

lemma disciplined_held_append:
  "Lock l \<notin> set body \<Longrightarrow> Unlock l \<notin> set body
     \<Longrightarrow> disciplined l True (body @ rest) = disciplined l True rest"
  by (induction body) auto

subsection \<open>The bus mutex and the adapter lock\<close>

text \<open>
  Both engines take and release \<^verbatim>\<open>citrus->bus_mutex\<close>: a transaction whose body does not
  touch the mutex holds it from before its first line operation until after its last and
  leaves it free.
\<close>

lemma engine_transactions_disciplined:
  assumes "Lock Bus_mutex \<notin> set body" and "Unlock Bus_mutex \<notin> set body"
  shows "disciplined Bus_mutex False (two_wire_transaction body)"
    and "disciplined Bus_mutex False (four_wire_transaction body)"
  using assms
  by (simp_all add: two_wire_transaction_def four_wire_transaction_def i2c_gpio_pre_xfer_def
      i2c_gpio_post_xfer_def citrus_core_lock_i2c_def citrus_core_unlock_i2c_def
      spi_citrus_prepare_hardware_def spi_citrus_unprepare_hardware_def citrus_core_lock_spi_def
      citrus_core_unlock_spi_def disciplined_held_append)

lemma loop_events:
  "e \<in> set (incomplete_transfer_loop u p n) \<Longrightarrow> (\<forall>l. e \<noteq> Lock l \<and> e \<noteq> Unlock l)"
  by (induction n)
     (auto simp: i2c_gpio_setscl_val_def i2c_gpio_setsda_val_def citrus_core_set_i2c_scl_def
        citrus_core_set_i2c_sda_def)

text \<open>
  The fault injector brackets its line operations with the I2C adapter's bus lock and
  never takes the bus mutex.
\<close>

lemma incomplete_transfer_adapter_lock:
  "disciplined Adap_bus_lock False (i2c_gpio_incomplete_transfer priv p sz)"
  "Lock Bus_mutex \<notin> set (i2c_gpio_incomplete_transfer priv p sz)"
proof -
  have n: "Lock l \<notin> set (incomplete_transfer_loop u p n)"
    "Unlock l \<notin> set (incomplete_transfer_loop u p n)" for l u n
    using loop_events by blast+
  show "disciplined Adap_bus_lock False (i2c_gpio_incomplete_transfer priv p sz)"
    by (simp add: i2c_gpio_incomplete_transfer_def i2c_gpio_setsda_val_def
        citrus_core_set_i2c_sda_def disciplined_held_append n)
  show "Lock Bus_mutex \<notin> set (i2c_gpio_incomplete_transfer priv p sz)"
    by (simp add: i2c_gpio_incomplete_transfer_def i2c_gpio_setsda_val_def
        citrus_core_set_i2c_sda_def n)
qed

lemma fi_output_eq:
  "fi_output env ret =
     (Some (if dir_out_ret env \<noteq> 0 then dir_out_ret env else ret),
      [Direction_output Priv_scl 1 (dir_out_ret env), Unlock Adap_bus_lock])"
  by (simp add: fi_output_def fi_unlock_def)

lemma fi_act_adapter_lock:
  assumes "i2c_gpio_fi_act_on_scl_irq env priv h = (Some r, t)"
  shows "disciplined Adap_bus_lock False t" and "Lock Bus_mutex \<notin> set t"
  using assms
  by (auto simp add: i2c_gpio_fi_act_on_scl_irq_def fi_output_eq fi_unlock_def Let_def
      lose_arbitration_irq_def inject_panic_irq_def i2c_gpio_setsda_val_def
      citrus_core_set_i2c_sda_def split: wait_result.splits irq_handler.splits if_splits)

lemma wire_attributes_adapter_lock:
  "disciplined Adap_bus_lock False (snd (fops_scl_set priv val))"
  "disciplined Adap_bus_lock False (snd (fops_sda_set priv val))"
  "disciplined Adap_bus_lock False (snd (snd (fops_sda_get priv v)))"
  "fops_scl_get priv v = Some (r, x, t) \<Longrightarrow> disciplined Adap_bus_lock False t"
  by (auto simp add: fops_scl_set_def fops_sda_set_def fops_sda_get_def fops_scl_get_def
      i2c_gpio_setscl_val_def i2c_gpio_setsda_val_def i2c_gpio_getsda_def i2c_gpio_getscl_def
      citrus_core_set_i2c_scl_def citrus_core_set_i2c_sda_def citrus_core_get_i2c_sda_def
      citrus_core_get_i2c_scl_def split: option.splits)

text \<open>
  C1: every two-wire and four-wire transaction and every fault-injector action that touches
  the lines is to hold the arbiter's one lock from before its first line operation until
  after its last, and leave it free.  The engines do: both take \<^verbatim>\<open>citrus->bus_mutex\<close>.
  The fault injector does not: writing 1 to its \<^verbatim>\<open>sda\<close> control drives the data line
  between taking and releasing the I2C adapter's bus lock, and the bus mutex is not held
  when the line is driven.
\<close>

theorem fault_injector_skips_bus_mutex:
  "fops_sda_set priv 1 = (0, [Lock Adap_bus_lock, Set_value Mosi 1, Unlock Adap_bus_lock])
   \<and> \<not> disciplined Bus_mutex False (snd (fops_sda_set priv 1))
   \<and> disciplined Adap_bus_lock False (snd (fops_sda_set priv 1))
   \<and> disciplined Bus_mutex False (two_wire_transaction [Set_value Mosi 1])
   \<and> disciplined Bus_mutex False (four_wire_transaction [Set_value Mosi 1])"
  by (simp add: fops_sda_set_def i2c_gpio_setsda_val_def citrus_core_set_i2c_sda_def
      two_wire_transaction_def four_wire_transaction_def i2c_gpio_pre_xfer_def
      i2c_gpio_post_xfer_def citrus_core_lock_i2c_def citrus_core_unlock_i2c_def
      spi_citrus_prepare_hardware_def spi_citrus_unprepare_hardware_def citrus_core_lock_spi_def
      citrus_core_unlock_spi_def)

theorem fault_injector_skips_bus_mutex_witness:
  "snd (fops_sda_set kzalloc_priv 1)
     = [Lock Adap_bus_lock, Set_value Mosi 1, Unlock Adap_bus_lock]
   \<and> \<not> disciplined Bus_mutex False [Lock Adap_bus_lock, Set_value Mosi 1, Unlock Adap_bus_lock]
   \<and> disciplined Bus_mutex False
        [Lock Bus_mutex, Set_value Mosi 1, Unlock Bus_mutex]"
  using fault_injector_skips_bus_mutex [of kzalloc_priv] by simp

subsection \<open>Incomplete transfers\<close>

lemma low_bit: "(uint (w AND 1) = 0) = even (w :: u32)"
  by (simp add: and_one_eq unsigned_eq_0_iff even_iff_mod_2_eq_zero)

lemma bit_sent: "(uint (drop_bit i p AND 1) = 0) = (\<not> bit (p :: u32) i)"
  by (simp add: low_bit bit_iff_odd_drop_bit)

text \<open>
  Each round of the loop clocks out one bit, bit \<open>i\<close> of the pattern, and changes the
  data line only while the clock is low.
\<close>

lemma loop_conds:
  "bus_conds scl sda (incomplete_transfer_loop u p n @ rest) =
     map (\<lambda>i. Bit (bit p i)) (rev [0..<n])
     @ bus_conds (n \<noteq> 0 \<or> scl) (if n = 0 then sda else bit p 0) rest"
proof (induction n arbitrary: scl sda)
  case 0
  show ?case by simp
next
  case (Suc n)
  show ?case
    unfolding incomplete_transfer_loop.simps
    by (cases "n = 0")
       (simp_all add: i2c_gpio_setscl_val_def i2c_gpio_setsda_val_def citrus_core_set_i2c_scl_def
          citrus_core_set_i2c_sda_def bit_sent Suc.IH del: drop_bit_0)
qed

lemma transfer_conds:
  "bus_conds scl sda (i2c_gpio_incomplete_transfer priv p sz) =
     (if scl \<and> sda then [Start] else []) @ map (\<lambda>i. Bit (bit p i)) (rev [0..<unat sz])"
  by (simp add: i2c_gpio_incomplete_transfer_def i2c_gpio_setsda_val_def
      citrus_core_set_i2c_sda_def loop_conds)

lemma loop_run:
  "run s (incomplete_transfer_loop u p n) =
     (if n = 0 then s else s\<lparr>level := (level s)(Sck := True, Mosi := bit p 0)\<rparr>)"
proof (induction n arbitrary: s)
  case 0
  show ?case by (simp add: run_Nil)
next
  case (Suc n)
  show ?case
    unfolding incomplete_transfer_loop.simps
    by (cases "n = 0")
       (simp_all add: i2c_gpio_setscl_val_def i2c_gpio_setsda_val_def citrus_core_set_i2c_scl_def
          citrus_core_set_i2c_sda_def bit_sent run_append run_Cons run_Nil Suc.IH fun_upd_twist
          del: drop_bit_0)
qed

lemma transfer_run:
  "0 < unat sz \<Longrightarrow>
     level (run s (i2c_gpio_incomplete_transfer priv p sz))
       = (level s)(Sck := True, Mosi := bit p 0)"
  by (simp add: i2c_gpio_incomplete_transfer_def i2c_gpio_setsda_val_def
      citrus_core_set_i2c_sda_def run_append run_Cons run_Nil loop_run fun_upd_twist)

lemma value_of_bits:
  "foldl (\<lambda>acc b. 2 * acc + of_bool b) a (map (bit P) (rev [0..<n]))
     = a * 2 ^ n + take_bit n (P::nat)"
  by (induction n arbitrary: a) (simp_all add: take_bit_Suc_from_most algebra_simps)

lemma msb_first_value_take_bit: "msb_first_value (msb_first n P) = take_bit n P"
  using value_of_bits [of 0 P n] by (simp add: msb_first_value_def msb_first_def)

lemma map_rev_upt_cong:
  "(\<And>i. i < n \<Longrightarrow> f i = g i) \<Longrightarrow> map f (rev [0..<n]) = map g (rev [0..<n])"
  by simp

lemma bit_3_nat: "bit (3::nat) i \<longleftrightarrow> i < 2"
  using bit_mask_iff [where ?'a = nat, of 2 i] by (simp add: mask_eq_exp_minus_1)

lemma bit_3_int: "bit (3::int) i \<longleftrightarrow> i < 2"
  using bit_mask_iff [where ?'a = int, of 2 i] by (simp add: mask_eq_exp_minus_1)

lemma bit_512_nat: "bit (512::nat) i \<longleftrightarrow> i = 9"
  using bit_exp_iff [where ?'a = nat, of 9 i] by simp

lemma bit_512_int: "bit (512::int) i \<longleftrightarrow> i = 9"
  using bit_exp_iff [where ?'a = int, of 9 i] by simp

text \<open>The \<^verbatim>\<open>u32\<close> patterns have the bits of the patterns computed without a width.\<close>

lemma addr_pattern_bits:
  "i < 32 \<Longrightarrow>
     bit (ucast (push_bit 2 (addr :: u64) OR 3) :: u32) i
       = bit (push_bit 2 (unat addr) OR 3 :: nat) i"
  by (simp add: bit_simps bit_3_nat bit_3_int)

lemma write_pattern_bits:
  "i < 32 \<Longrightarrow>
     bit (push_bit 9 (ucast (push_bit 2 (addr :: u64) OR 1) :: u32) OR 1) i
       = bit (push_bit 9 (push_bit 2 (unat addr) OR 1) OR 1 :: nat) i"
  by (auto simp add: bit_simps bit_512_nat bit_512_int)

lemma bit_small: "bit (a::nat) i \<Longrightarrow> a < 2 ^ n \<Longrightarrow> i < n"
  by (metis bit_take_bit_iff take_bit_nat_eq_self)

lemma addr_bits_small:
  assumes "(addr :: u64) \<le> 0x7f" and "bit addr j"
  shows "j < 7"
proof -
  from assms(1) have "unat addr < 2 ^ 7" by (simp add: word_le_nat_alt)
  moreover from assms(2) have "bit (unat addr) j" by (simp add: bit_simps)
  ultimately show ?thesis by (rule bit_small [rotated])
qed

text \<open>For a 7-bit address the patterns fit in 9 and in 18 bits.\<close>

lemma addr_pattern_small:
  assumes "(addr :: u64) \<le> 0x7f"
  shows "take_bit 9 (push_bit 2 (unat addr) OR 3 :: nat) = push_bit 2 (unat addr) OR 3"
  by (intro bit_eqI) (auto simp add: bit_simps bit_3_nat dest: addr_bits_small [OF assms])

lemma write_pattern_small:
  assumes "(addr :: u64) \<le> 0x7f"
  shows "take_bit 18 (push_bit 9 (push_bit 2 (unat addr) OR 1) OR 1 :: nat)
         = push_bit 9 (push_bit 2 (unat addr) OR 1) OR 1"
  by (intro bit_eqI) (auto simp add: bit_simps bit_512_nat dest: addr_bits_small [OF assms])

lemma msb_first_0xEB:
  "msb_first 9 235 = [False, True, True, True, False, True, False, True, True]"
  by code_simp

text \<open>
  C2: for an address of at most \<open>0x7f\<close>, the incomplete-address-phase injection returns 0
  and, on an idle bus (both lines high), produces a START followed by exactly 9 clocked
  bits, the bits of \<open>(addr << 2) | 3\<close> most significant first, one per rising clock edge;
  the 9 bits spell that number; no STOP occurs whatever levels the lines start from; the
  data line and the clock line are high at the end.  The incomplete-write-byte injection does
  the same with the 18 bits of \<open>(((addr << 2) | 1) << 9) | 1\<close>.
\<close>

theorem incomplete_transfers_shift_pattern:
  assumes "addr \<le> 0x7f"
  shows
    "fst (fops_incomplete_addr_phase_set k priv addr) = 0
     \<and> bus_conds True True (snd (fops_incomplete_addr_phase_set k priv addr))
         = Start # map Bit (msb_first 9 (push_bit 2 (unat addr) OR 3))
     \<and> msb_first_value (msb_first 9 (push_bit 2 (unat addr) OR 3)) = push_bit 2 (unat addr) OR 3
     \<and> Stop \<notin> set (bus_conds scl sda (snd (fops_incomplete_addr_phase_set k priv addr)))
     \<and> level (run s (snd (fops_incomplete_addr_phase_set k priv addr))) Mosi
     \<and> level (run s (snd (fops_incomplete_addr_phase_set k priv addr))) Sck
     \<and> fst (fops_incomplete_write_byte_set k priv addr) = 0
     \<and> bus_conds True True (snd (fops_incomplete_write_byte_set k priv addr))
         = Start # map Bit (msb_first 18 (push_bit 9 (push_bit 2 (unat addr) OR 1) OR 1))
     \<and> msb_first_value (msb_first 18 (push_bit 9 (push_bit 2 (unat addr) OR 1) OR 1))
         = push_bit 9 (push_bit 2 (unat addr) OR 1) OR 1
     \<and> Stop \<notin> set (bus_conds scl sda (snd (fops_incomplete_write_byte_set k priv addr)))
     \<and> level (run s (snd (fops_incomplete_write_byte_set k priv addr))) Mosi
     \<and> level (run s (snd (fops_incomplete_write_byte_set k priv addr))) Sck"
proof -
  let ?p = "ucast (push_bit 2 addr OR 3) :: u32"
  let ?q = "push_bit 9 (ucast (push_bit 2 addr OR 1) :: u32) OR 1"
  from assms have nerr: "\<not> 0x7f < addr" by simp
  have a: "fops_incomplete_addr_phase_set k priv addr
             = (0, i2c_gpio_incomplete_transfer priv ?p 9)"
    using nerr by (simp add: fops_incomplete_addr_phase_set_def)
  have w: "fops_incomplete_write_byte_set k priv addr
             = (0, i2c_gpio_incomplete_transfer priv ?q 18)"
    using nerr by (simp add: fops_incomplete_write_byte_set_def)
  have pb: "map (\<lambda>i. Bit (bit ?p i)) (rev [0..<9])
              = map Bit (msb_first 9 (push_bit 2 (unat addr) OR 3))"
    unfolding msb_first_def map_map comp_def
    by (rule map_rev_upt_cong) (simp add: addr_pattern_bits)
  have qb: "map (\<lambda>i. Bit (bit ?q i)) (rev [0..<18])
              = map Bit (msb_first 18 (push_bit 9 (push_bit 2 (unat addr) OR 1) OR 1))"
    unfolding msb_first_def map_map comp_def
    by (rule map_rev_upt_cong) (simp add: write_pattern_bits)
  have p0: "bit ?p 0" by (simp add: bit_simps)
  have q0: "bit ?q 0" by (simp add: bit_simps)
  have ca: "bus_conds scl sda (i2c_gpio_incomplete_transfer priv ?p 9)
      = (if scl \<and> sda then [Start] else [])
        @ map Bit (msb_first 9 (push_bit 2 (unat addr) OR 3))"
    for scl sda
    using pb by (simp add: transfer_conds)
  have cw: "bus_conds scl sda (i2c_gpio_incomplete_transfer priv ?q 18)
      = (if scl \<and> sda then [Start] else [])
        @ map Bit (msb_first 18 (push_bit 9 (push_bit 2 (unat addr) OR 1) OR 1))"
    for scl sda
    using qb by (simp add: transfer_conds)
  have va: "msb_first_value (msb_first 9 (push_bit 2 (unat addr) OR 3))
              = push_bit 2 (unat addr) OR 3"
    by (simp only: msb_first_value_take_bit addr_pattern_small [OF assms])
  have vw: "msb_first_value (msb_first 18 (push_bit 9 (push_bit 2 (unat addr) OR 1) OR 1))
              = push_bit 9 (push_bit 2 (unat addr) OR 1) OR 1"
    by (simp only: msb_first_value_take_bit write_pattern_small [OF assms])
  have sa: "Stop \<notin> set (bus_conds scl sda (i2c_gpio_incomplete_transfer priv ?p 9))"
    unfolding ca by auto
  have sw: "Stop \<notin> set (bus_conds scl sda (i2c_gpio_incomplete_transfer priv ?q 18))"
    unfolding cw by auto
  have la: "level (run s (i2c_gpio_incomplete_transfer priv ?p 9)) Mosi"
    "level (run s (i2c_gpio_incomplete_transfer priv ?p 9)) Sck"
    using p0 by (simp_all add: transfer_run)
  have lw: "level (run s (i2c_gpio_incomplete_transfer priv ?q 18)) Mosi"
    "level (run s (i2c_gpio_incomplete_transfer priv ?q 18)) Sck"
    using q0 by (simp_all add: transfer_run)
  show ?thesis
    unfolding a w fst_conv snd_conv
    using ca [of True True] cw [of True True] va vw sa sw la lw by simp
qed

theorem incomplete_transfers_shift_pattern_witness:
  "(0x3A :: u64) \<le> 0x7f
   \<and> bus_conds True True (snd (fops_incomplete_addr_phase_set example_consts kzalloc_priv 0x3A))
       = [Start, Bit False, Bit True, Bit True, Bit True, Bit False, Bit True, Bit False,
          Bit True, Bit True]
   \<and> push_bit 2 (unat (0x3A :: u64)) OR 3 = (0xEB :: nat)"
  using incomplete_transfers_shift_pattern [of "0x3A" example_consts kzalloc_priv True True lines_low]
  by (simp add: msb_first_0xEB)

subsection \<open>Rejected arguments\<close>

text \<open>
  C3: an address above \<open>0x7f\<close> given to either incomplete-transfer injection, and a delay
  above 100000 microseconds given to the lose-arbitration or the panic injection, returns
  \<^verbatim>\<open>-EINVAL\<close> with an empty trace (no lock taken, no interrupt requested, no line
  operation) and leaves the private data as it was.
\<close>

theorem bounds_rejected_before_any_effect:
  "(0x7f < addr \<longrightarrow>
      fops_incomplete_addr_phase_set k priv addr = (- EINVAL k, [])
    \<and> fops_incomplete_write_byte_set k priv addr = (- EINVAL k, []))
   \<and> (100000 < duration \<longrightarrow>
      fops_lose_arbitration_set k env priv duration = (Some (- EINVAL k), [], priv)
    \<and> fops_inject_panic_set k env priv duration = (Some (- EINVAL k), [], priv))"
  by (simp add: fops_incomplete_addr_phase_set_def fops_incomplete_write_byte_set_def
      fops_lose_arbitration_set_def fops_inject_panic_set_def)

theorem bounds_rejected_before_any_effect_witness:
  "(0x7f :: u64) < 0x80 \<and> (100000 :: u64) < 100001
   \<and> fops_incomplete_addr_phase_set example_consts kzalloc_priv 0x80 = (- 22, [])
   \<and> fops_incomplete_write_byte_set example_consts kzalloc_priv 0x80 = (- 22, [])
   \<and> fops_lose_arbitration_set example_consts example_irq_env kzalloc_priv 100001
       = (Some (- 22), [], kzalloc_priv)
   \<and> fops_inject_panic_set example_consts example_irq_env kzalloc_priv 100001
       = (Some (- 22), [], kzalloc_priv)"
  using bounds_rejected_before_any_effect
          [of "0x80" example_consts kzalloc_priv 100001 example_irq_env]
  by (simp add: example_consts_def)

subsection \<open>The interrupt-synchronised fault action\<close>

text \<open>
  C4, as the code has it: when the interrupt lookup fails the action returns the lookup's
  code without taking the lock or touching a line; when the switch of the clock line to
  input fails it returns that code after releasing the lock, without driving the line; when
  the interrupt registration fails it sets the clock line to output, driven high, releases
  the lock and returns the registration's code, or the code of the restore if that fails.
  On every returning path after a successful switch to input (registration failure, wait
  cancelled by a signal, interrupt fired and handled) the last two operations are the
  restore of the clock line to output, driven high, and the release of the lock, no other
  direction change lies in between, and when the restore succeeds the clock line is an
  output and high.
\<close>

theorem fi_act_restores_after_switch:
  "(to_irq env < 0 \<longrightarrow> i2c_gpio_fi_act_on_scl_irq env priv h = (Some (to_irq env), []))
   \<and> (0 \<le> to_irq env \<and> dir_in_ret env \<noteq> 0 \<longrightarrow>
        i2c_gpio_fi_act_on_scl_irq env priv h
          = (Some (dir_in_ret env),
             [Lock Adap_bus_lock, Direction_input Priv_scl (dir_in_ret env),
              Unlock Adap_bus_lock]))
   \<and> (0 \<le> to_irq env \<and> dir_in_ret env = 0 \<and> req_irq_ret env \<noteq> 0 \<longrightarrow>
        i2c_gpio_fi_act_on_scl_irq env priv h
          = (Some (if dir_out_ret env \<noteq> 0 then dir_out_ret env else req_irq_ret env),
             [Lock Adap_bus_lock, Direction_input Priv_scl 0, Reinit_completion,
              Request_irq (to_irq env) h (req_irq_ret env),
              Direction_output Priv_scl 1 (dir_out_ret env), Unlock Adap_bus_lock]))
   \<and> (0 \<le> to_irq env \<and> dir_in_ret env = 0
        \<and> i2c_gpio_fi_act_on_scl_irq env priv h = (Some r, t) \<longrightarrow>
        (\<exists>pre. t = Lock Adap_bus_lock # Direction_input Priv_scl 0 # pre
                     @ [Direction_output Priv_scl 1 (dir_out_ret env), Unlock Adap_bus_lock]
               \<and> (\<forall>g v x. Direction_output g v x \<notin> set pre \<and> Direction_input g x \<notin> set pre))
        \<and> (dir_out_ret env = 0 \<longrightarrow>
              dir (run s t) Priv_scl = Dir_out \<and> level (run s t) Priv_scl))"
  by (auto simp add: i2c_gpio_fi_act_on_scl_irq_def fi_output_eq fi_unlock_def Let_def
      lose_arbitration_irq_def inject_panic_irq_def i2c_gpio_setsda_val_def
      citrus_core_set_i2c_sda_def run_Cons run_Nil run_append
      split: wait_result.splits irq_handler.splits)

theorem fi_act_restores_after_switch_witness:
  "to_irq (example_irq_env\<lparr>to_irq := - 6\<rparr>) < 0
   \<and> i2c_gpio_fi_act_on_scl_irq (example_irq_env\<lparr>to_irq := - 6\<rparr>) kzalloc_priv
        Lose_arbitration_irq = (Some (- 6), [])
   \<and> 0 \<le> to_irq example_irq_env \<and> dir_in_ret (example_irq_env\<lparr>dir_in_ret := - 16\<rparr>) \<noteq> 0
   \<and> dir_in_ret example_irq_env = 0 \<and> req_irq_ret (example_irq_env\<lparr>req_irq_ret := - 16\<rparr>) \<noteq> 0
   \<and> i2c_gpio_fi_act_on_scl_irq (example_irq_env\<lparr>req_irq_ret := - 16\<rparr>) kzalloc_priv
        Lose_arbitration_irq
       = (Some (- 16),
          [Lock Adap_bus_lock, Direction_input Priv_scl 0, Reinit_completion,
           Request_irq 17 Lose_arbitration_irq (- 16), Direction_output Priv_scl 1 0,
           Unlock Adap_bus_lock])
   \<and> i2c_gpio_fi_act_on_scl_irq (example_irq_env\<lparr>wait_ret := Interrupted\<rparr>) kzalloc_priv
        Lose_arbitration_irq
       = (Some 0,
          [Lock Adap_bus_lock, Direction_input Priv_scl 0, Reinit_completion,
           Request_irq 17 Lose_arbitration_irq 0, Wait_for_completion Interrupted, Free_irq 17,
           Direction_output Priv_scl 1 0, Unlock Adap_bus_lock])
   \<and> level (run lines_low (snd (i2c_gpio_fi_act_on_scl_irq
        (example_irq_env\<lparr>wait_ret := Interrupted\<rparr>) kzalloc_priv Lose_arbitration_irq)))
        Priv_scl"
  using
    fi_act_restores_after_switch [of "example_irq_env\<lparr>to_irq := - 6\<rparr>" kzalloc_priv
      Lose_arbitration_irq]
    fi_act_restores_after_switch [of "example_irq_env\<lparr>dir_in_ret := - 16\<rparr>" kzalloc_priv
      Lose_arbitration_irq]
    fi_act_restores_after_switch [of "example_irq_env\<lparr>req_irq_ret := - 16\<rparr>" kzalloc_priv
      Lose_arbitration_irq]
    fi_act_restores_after_switch [of "example_irq_env\<lparr>wait_ret := Interrupted\<rparr>" kzalloc_priv
      Lose_arbitration_irq 0
      "snd (i2c_gpio_fi_act_on_scl_irq (example_irq_env\<lparr>wait_ret := Interrupted\<rparr>)
         kzalloc_priv Lose_arbitration_irq)" lines_low]
  by (simp add: example_irq_env_def i2c_gpio_fi_act_on_scl_irq_def fi_output_eq)

text \<open>
  The claim as stated fails: when the switch of the clock line to input fails, the action
  returns without any call that sets the line to output, so a clock line that was driven
  low is still driven low; when the interrupt lookup fails nothing is done at all; and a
  wait cancelled by a signal returns 0, as a wait ended by the interrupt does.
\<close>

theorem fi_act_no_restore_counterexample:
  "i2c_gpio_fi_act_on_scl_irq (example_irq_env\<lparr>dir_in_ret := - 16\<rparr>) kzalloc_priv
       Lose_arbitration_irq
     = (Some (- 16), [Lock Adap_bus_lock, Direction_input Priv_scl (- 16), Unlock Adap_bus_lock])
   \<and> \<not> level (run lines_low (snd (i2c_gpio_fi_act_on_scl_irq
          (example_irq_env\<lparr>dir_in_ret := - 16\<rparr>) kzalloc_priv Lose_arbitration_irq))) Priv_scl
   \<and> i2c_gpio_fi_act_on_scl_irq (example_irq_env\<lparr>to_irq := - 6\<rparr>) kzalloc_priv
       Lose_arbitration_irq = (Some (- 6), [])
   \<and> fst (i2c_gpio_fi_act_on_scl_irq (example_irq_env\<lparr>wait_ret := Interrupted\<rparr>)
          kzalloc_priv Lose_arbitration_irq) = Some 0
   \<and> fst (i2c_gpio_fi_act_on_scl_irq example_irq_env kzalloc_priv Lose_arbitration_irq)
       = Some 0"
  by (simp add: i2c_gpio_fi_act_on_scl_irq_def example_irq_env_def fi_unlock_def fi_output_eq
      run_Cons run_Nil lines_low_def)

subsection \<open>The probe\<close>

lemma probe_success:
  assumes "i2c_citrus_probe k env = (0, Some (priv, files))"
  obtains np where "i2c_node env = Some np" "kzalloc_ok env" "add_bus_ret env = 0"
    "pdata priv = of_i2c_gpio_get_props k np (pdata kzalloc_priv)"
    "getscl (bit_data priv)
       = (if scl_is_output_only (pdata priv) then None else Some I2c_gpio_getscl)"
    "udelay (bit_data priv) =
       (if pdata_udelay (pdata priv) \<noteq> 0 then pdata_udelay (pdata priv)
        else if scl_is_output_only (pdata priv) then 50 else 5)"
    "timeout (bit_data priv) =
       (if pdata_timeout (pdata priv) \<noteq> 0 then pdata_timeout (pdata priv)
        else c_div (HZ k) 10)"
    "files = (if CONFIG_I2C_GPIO_FAULT_INJECTOR k
              then i2c_gpio_fault_injector_init env priv else [])"
  using assms
  by (auto simp: i2c_citrus_probe_def Let_def kzalloc_priv_def split: option.splits if_splits)

text \<open>
  C5: after a successful probe the \<^verbatim>\<open>getscl\<close> callback is installed exactly when the
  node does not have \<^verbatim>\<open>i2c-gpio,scl-output-only\<close>.  When the fault injector is compiled in
  and its debugfs directory exists, the \<^verbatim>\<open>lose_arbitration\<close> and \<^verbatim>\<open>inject_panic\<close> controls
  are created exactly when \<^verbatim>\<open>getscl\<close> is installed, and the incomplete-address,
  incomplete-write-byte, \<^verbatim>\<open>scl\<close> and \<^verbatim>\<open>sda\<close> controls are created in both cases.
\<close>

theorem probe_getscl_and_controls:
  assumes "i2c_citrus_probe k env = (0, Some (priv, files))" and "i2c_node env = Some np"
  shows "(getscl (bit_data priv) \<noteq> None \<longleftrightarrow> \<not> scl_output_only np)
       \<and> (CONFIG_I2C_GPIO_FAULT_INJECTOR k \<and> (i2c_gpio_debug_dir env \<or> create_root_ok env)
           \<and> create_dir_ok env \<longrightarrow>
            (Fops_lose_arbitration \<in> set (map (snd \<circ> snd) files)
               \<longleftrightarrow> getscl (bit_data priv) \<noteq> None)
          \<and> (Fops_inject_panic \<in> set (map (snd \<circ> snd) files)
               \<longleftrightarrow> getscl (bit_data priv) \<noteq> None)
          \<and> Fops_incomplete_addr_phase \<in> set (map (snd \<circ> snd) files)
          \<and> Fops_incomplete_write_byte \<in> set (map (snd \<circ> snd) files)
          \<and> Fops_scl \<in> set (map (snd \<circ> snd) files)
          \<and> Fops_sda \<in> set (map (snd \<circ> snd) files))"
proof -
  from assms obtain
    pd: "pdata priv = of_i2c_gpio_get_props k np (pdata kzalloc_priv)" and
    g: "getscl (bit_data priv)
          = (if scl_is_output_only (pdata priv) then None else Some I2c_gpio_getscl)" and
    f: "files = (if CONFIG_I2C_GPIO_FAULT_INJECTOR k
                 then i2c_gpio_fault_injector_init env priv else [])"
    by (auto elim!: probe_success)
  have oo: "scl_is_output_only (pdata priv) = scl_output_only np"
    by (simp add: pd of_i2c_gpio_get_props_def)
  have g': "getscl (bit_data priv)
              = (if scl_output_only np then None else Some I2c_gpio_getscl)"
    by (simp add: g oo)
  show ?thesis
    unfolding f by (auto simp add: i2c_gpio_fault_injector_init_def g')
qed

theorem probe_getscl_and_controls_witness:
  "fst (i2c_citrus_probe example_consts example_probe_env) = 0
   \<and> i2c_node example_probe_env = Some example_node
   \<and> getscl (bit_data (fst (the (snd (i2c_citrus_probe example_consts example_probe_env)))))
       = Some I2c_gpio_getscl
   \<and> map fst (snd (the (snd (i2c_citrus_probe example_consts example_probe_env))))
       = [''incomplete_address_phase'', ''incomplete_write_byte'', ''inject_panic'',
          ''lose_arbitration'', ''scl'', ''sda'']
   \<and> map fst (snd (the (snd (i2c_citrus_probe example_consts
         (example_probe_env\<lparr>i2c_node := Some (example_node\<lparr>scl_output_only := True\<rparr>)\<rparr>)))))
       = [''incomplete_address_phase'', ''incomplete_write_byte'', ''scl'', ''sda'']"
  using probe_getscl_and_controls [of example_consts example_probe_env
      "fst (the (snd (i2c_citrus_probe example_consts example_probe_env)))"
      "snd (the (snd (i2c_citrus_probe example_consts example_probe_env)))"
      example_node]
  by (simp add: i2c_citrus_probe_def example_probe_env_def example_node_def example_consts_def
      of_i2c_gpio_get_props_def kzalloc_priv_def c_div_def Let_def
      i2c_gpio_fault_injector_init_def)

text \<open>The later revision of the probe chooses the delay and the timeout in the same way.\<close>

lemma probe_scl2_delay_and_timeout:
  assumes "i2c_citrus_probe_scl2 k env scl2 = (r, Some priv)" and "i2c_node env = Some np"
  shows "udelay (bit_data priv) =
           (case delay_us np of
              None \<Rightarrow> if scl_output_only np then 50 else 5
            | Some d \<Rightarrow> if d \<noteq> 0 then sint d else if scl_output_only np then 50 else 5)"
    and "timeout (bit_data priv) =
           (case timeout_ms np of
              None \<Rightarrow> c_div (HZ k) 10
            | Some ms \<Rightarrow> if msecs_to_jiffies k ms \<noteq> 0 then msecs_to_jiffies k ms
                        else c_div (HZ k) 10)"
  using assms
  by (auto simp: i2c_citrus_probe_scl2_def Let_def kzalloc_priv_def of_i2c_gpio_get_props_def
      signed_eq_0_iff split: option.splits if_splits)

text \<open>
  C6: after a successful probe, a node without \<^verbatim>\<open>i2c-gpio,delay-us\<close> gives a half-bit
  delay of 5 microseconds, or of 50 when the clock line is output-only; a node without
  \<^verbatim>\<open>i2c-gpio,timeout-ms\<close> gives a timeout of \<^verbatim>\<open>HZ / 10\<close> jiffies; a nonzero delay read from
  the node and a nonzero timeout (the node's milliseconds in jiffies) are taken as they are.
\<close>

theorem probe_delay_and_timeout_defaults:
  assumes "i2c_citrus_probe k env = (0, Some (priv, files))" and "i2c_node env = Some np"
  shows "(delay_us np = None \<longrightarrow>
            udelay (bit_data priv) = (if scl_output_only np then 50 else 5))
       \<and> (timeout_ms np = None \<longrightarrow> timeout (bit_data priv) = c_div (HZ k) 10)
       \<and> (delay_us np = Some d \<and> d \<noteq> 0 \<longrightarrow> udelay (bit_data priv) = sint d)
       \<and> (timeout_ms np = Some ms \<and> msecs_to_jiffies k ms \<noteq> 0
            \<longrightarrow> timeout (bit_data priv) = msecs_to_jiffies k ms)
       \<and> udelay (bit_data priv) =
            (if pdata_udelay (pdata priv) \<noteq> 0 then pdata_udelay (pdata priv)
             else if scl_is_output_only (pdata priv) then 50 else 5)
       \<and> timeout (bit_data priv) =
            (if pdata_timeout (pdata priv) \<noteq> 0 then pdata_timeout (pdata priv)
             else c_div (HZ k) 10)"
  using assms
  by (auto elim!: probe_success simp: of_i2c_gpio_get_props_def kzalloc_priv_def signed_eq_0_iff)

theorem probe_delay_and_timeout_defaults_witness:
  "fst (i2c_citrus_probe example_consts example_probe_env) = 0
   \<and> i2c_node example_probe_env = Some example_node
   \<and> delay_us example_node = None \<and> timeout_ms example_node = None
   \<and> udelay (bit_data (fst (the (snd (i2c_citrus_probe example_consts example_probe_env))))) = 5
   \<and> timeout (bit_data (fst (the (snd (i2c_citrus_probe example_consts example_probe_env)))))
       = 25
   \<and> udelay (bit_data (fst (the (snd (i2c_citrus_probe example_consts
        (example_probe_env\<lparr>i2c_node :=
           Some (example_node\<lparr>delay_us := Some 7, timeout_ms := Some 40\<rparr>)\<rparr>)))))) = 7
   \<and> timeout (bit_data (fst (the (snd (i2c_citrus_probe example_consts
        (example_probe_env\<lparr>i2c_node :=
           Some (example_node\<lparr>delay_us := Some 7, timeout_ms := Some 40\<rparr>)\<rparr>)))))) = 10"
  using
    probe_delay_and_timeout_defaults [of example_consts example_probe_env
      "fst (the (snd (i2c_citrus_probe example_consts example_probe_env)))"
      "snd (the (snd (i2c_citrus_probe example_consts example_probe_env)))"
      example_node]
    probe_delay_and_timeout_defaults [of example_consts
      "example_probe_env\<lparr>i2c_node :=
         Some (example_node\<lparr>delay_us := Some 7, timeout_ms := Some 40\<rparr>)\<rparr>"
      "fst (the (snd (i2c_citrus_probe example_consts
         (example_probe_env\<lparr>i2c_node :=
            Some (example_node\<lparr>delay_us := Some 7, timeout_ms := Some 40\<rparr>)\<rparr>))))"
      "snd (the (snd (i2c_citrus_probe example_consts
         (example_probe_env\<lparr>i2c_node :=
            Some (example_node\<lparr>delay_us := Some 7, timeout_ms := Some 40\<rparr>)\<rparr>))))"
      "example_node\<lparr>delay_us := Some 7, timeout_ms := Some 40\<rparr>" 7 40]
  by (simp add: i2c_citrus_probe_def example_probe_env_def example_node_def example_consts_def
      of_i2c_gpio_get_props_def kzalloc_priv_def c_div_def Let_def)

subsection \<open>The SPI master\<close>

text \<open>
  C7: chip-select assertion performs one line operation, setting the clock line to
  \<^verbatim>\<open>mode & SPI_CPOL\<close>, so the clock is high exactly when the CPOL bit is set, and changes
  no direction; deassertion performs none.  In a selected transfer this is the first
  operation, before everything the word transfers do, and chip-select adds no operation
  after it.
\<close>

theorem chipselect_sets_idle_clock:
  "(is_active \<noteq> 0 \<longrightarrow>
      spi_citrus_chipselect k spi is_active = [Set_value Sck (sint (mode spi AND SPI_CPOL k))]
    \<and> level (run s (spi_citrus_chipselect k spi is_active)) Sck
        = (mode spi AND SPI_CPOL k \<noteq> 0)
    \<and> dir (run s (spi_citrus_chipselect k spi is_active)) = dir s)
   \<and> spi_citrus_chipselect k spi 0 = []
   \<and> chip_selected_transfer k spi words
       = Set_value Sck (sint (mode spi AND SPI_CPOL k)) # words"
  by (simp add: spi_citrus_chipselect_def citrus_core_set_spi_sck_def run_def signed_eq_0_iff
      chip_selected_transfer_def)

theorem chipselect_sets_idle_clock_witness:
  "(1 :: int) \<noteq> 0
   \<and> spi_citrus_chipselect example_consts (example_spi\<lparr>mode := 0x03\<rparr>) 1 = [Set_value Sck 2]
   \<and> level (run lines_low (spi_citrus_chipselect example_consts (example_spi\<lparr>mode := 0x03\<rparr>) 1))
        Sck
   \<and> spi_citrus_chipselect example_consts example_spi 1 = [Set_value Sck 0]"
  using
    chipselect_sets_idle_clock [of 1 example_consts "example_spi\<lparr>mode := 0x03\<rparr>" lines_low "[]"]
    chipselect_sets_idle_clock [of 1 example_consts example_spi lines_low "[]"]
  by (simp add: example_consts_def example_spi_def spi_citrus_chipselect_def
      citrus_core_set_spi_sck_def run_def)

text \<open>
  C8, as the code has it: in 3-wire mode with the high-impedance turnaround, a switch to
  input first switches the data line to input; when that fails its code is returned and
  the clock is not touched; when it succeeds the clock line is then set to the level
  opposite to CPOL and back to the CPOL level, after the direction switch.  In 3-wire mode
  without the turnaround flag the switch to input is the only line operation; without the
  flag no direction switch writes the clock line, and a switch to output never does.
\<close>

theorem set_direction_turnaround_after_switch:
  "(mode spi AND SPI_3WIRE k \<noteq> 0 \<and> mode spi AND SPI_3WIRE_HIZ k \<noteq> 0 \<longrightarrow>
      spi_citrus_set_direction k spi r False
        = (if r \<noteq> 0 then (r, [Direction_input Mosi r])
           else (0, [Direction_input Mosi 0,
                     Set_value Sck (of_bool (mode spi AND SPI_CPOL k = 0)),
                     Set_value Sck (of_bool (mode spi AND SPI_CPOL k \<noteq> 0))])))
   \<and> (mode spi AND SPI_3WIRE k \<noteq> 0 \<and> mode spi AND SPI_3WIRE_HIZ k = 0 \<longrightarrow>
      spi_citrus_set_direction k spi r False = (r, [Direction_input Mosi r]))
   \<and> (mode spi AND SPI_3WIRE_HIZ k = 0 \<longrightarrow>
      (\<forall>v. Set_value Sck v \<notin> set (snd (spi_citrus_set_direction k spi r output))))
   \<and> spi_citrus_set_direction k spi r True = (r, [Direction_output Mosi 1 r])"
  by (simp add: spi_citrus_set_direction_def citrus_core_set_spi_mosi_direction_input_def
      citrus_core_set_spi_mosi_direction_output_def citrus_core_set_spi_sck_def)

theorem set_direction_turnaround_after_switch_witness:
  "mode example_spi AND SPI_3WIRE example_consts \<noteq> 0
   \<and> mode example_spi AND SPI_3WIRE_HIZ example_consts \<noteq> 0
   \<and> mode (example_spi\<lparr>mode := 0x10\<rparr>) AND SPI_3WIRE example_consts \<noteq> 0
   \<and> mode (example_spi\<lparr>mode := 0x10\<rparr>) AND SPI_3WIRE_HIZ example_consts = 0
   \<and> spi_citrus_set_direction example_consts example_spi 0 False
       = (0, [Direction_input Mosi 0, Set_value Sck 1, Set_value Sck 0])
   \<and> spi_citrus_set_direction example_consts (example_spi\<lparr>mode := 0x10\<rparr>) 0 False
       = (0, [Direction_input Mosi 0])"
  using set_direction_turnaround_after_switch [of example_spi example_consts 0]
    set_direction_turnaround_after_switch [of "example_spi\<lparr>mode := 0x10\<rparr>" example_consts 0]
  by (simp add: example_consts_def example_spi_def)

text \<open>
  The claim as stated fails: in 3-wire mode with the turnaround (mode \<open>0x8010\<close>) the
  direction switch is the first operation and the clock pulse follows it, and when the
  switch fails there is no clock pulse.
\<close>

theorem set_direction_turnaround_counterexample:
  "spi_citrus_set_direction example_consts example_spi 0 False
     = (0, [Direction_input Mosi 0, Set_value Sck 1, Set_value Sck 0])
   \<and> spi_citrus_set_direction example_consts example_spi (- 5) False
     = (- 5, [Direction_input Mosi (- 5)])"
  by (simp add: spi_citrus_set_direction_def example_consts_def example_spi_def
      citrus_core_set_spi_mosi_direction_input_def citrus_core_set_spi_sck_def)

text \<open>
  C9: \<open>getmiso\<close> returns 0 for every device and reads no line, so every sample of a
  received word is 0.
\<close>

theorem getmiso_reads_zero:
  "getmiso spi = (0, []) \<and> sample_word spi bits = (replicate bits 0, [])"
  by (simp add: getmiso_def sample_word_def)

text \<open>
  C10: for a device whose mode lacks the 3-wire flag, a switch to input returns 0 and
  changes no line direction and not the level of the data line; its only line operations
  are the two clock writes of the turnaround, made exactly when the high-impedance flag
  is set.
\<close>

theorem set_direction_input_without_3wire:
  "mode spi AND SPI_3WIRE k = 0 \<longrightarrow>
     spi_citrus_set_direction k spi r False =
           (0, if mode spi AND SPI_3WIRE_HIZ k \<noteq> 0
               then [Set_value Sck (of_bool (mode spi AND SPI_CPOL k = 0)),
                     Set_value Sck (of_bool (mode spi AND SPI_CPOL k \<noteq> 0))]
               else [])
     \<and> dir (run s (snd (spi_citrus_set_direction k spi r False))) = dir s
     \<and> level (run s (snd (spi_citrus_set_direction k spi r False))) Mosi = level s Mosi"
  by (simp add: spi_citrus_set_direction_def citrus_core_set_spi_sck_def run_def)

theorem set_direction_input_without_3wire_witness:
  "mode (example_spi\<lparr>mode := 0x8002\<rparr>) AND SPI_3WIRE example_consts = 0
   \<and> spi_citrus_set_direction example_consts (example_spi\<lparr>mode := 0x8002\<rparr>) (- 5) False
       = (0, [Set_value Sck 0, Set_value Sck 1])
   \<and> spi_citrus_set_direction example_consts (example_spi\<lparr>mode := 0x02\<rparr>) (- 5) False = (0, [])
   \<and> dir (run lines_low (snd (spi_citrus_set_direction example_consts
        (example_spi\<lparr>mode := 0x8002\<rparr>) (- 5) False))) Mosi = Dir_out"
  using
    set_direction_input_without_3wire
      [of "example_spi\<lparr>mode := 0x8002\<rparr>" example_consts "- 5" lines_low]
    set_direction_input_without_3wire
      [of "example_spi\<lparr>mode := 0x02\<rparr>" example_consts "- 5" lines_low]
  by (simp add: example_consts_def example_spi_def lines_low_def run_def)

end
